theory Spec2Isabelle
  imports Main "HOL-Library.Sublist" "HOL-Library.AList"
begin

section \<open>Python values met by the adapter\<close>

text \<open>
  \<^verbatim>\<open>json.loads\<close> returns a Python object built from \<^verbatim>\<open>None\<close>, booleans, integers,
  floats, strings, lists and dictionaries with string keys. The adapter in \<^verbatim>\<open>src/llm.py\<close>
  never checks which of these it received, so every operation it applies is modelled on
  all of them, with the exception Python raises where the operand has the wrong type.
  Floats are kept abstract (type \<open>'f\<close>): their arithmetic is supplied by the runtime record
  below. A dictionary is an association list read through \<open>map_of\<close>.

  A line of the response body is a byte string (\<open>string\<close>). The text it decodes to is a
  Python \<^verbatim>\<open>str\<close>, a sequence of Unicode code points (\<open>pystr\<close>); \<open>str_lit\<close> turns an
  ASCII literal of the source into that form.
\<close>

type_synonym pystr = "nat list"

definition str_lit :: "string \<Rightarrow> pystr" where
  "str_lit s = map of_char s"

datatype 'f json =
    JNull
  | JBool bool
  | JInt int
  | JFloat 'f
  | JStr string
  | JArr "'f json list"
  | JObj "(string \<times> 'f json) list"

datatype exn =
    AttributeError
  | TypeError
  | KeyError
  | OverflowError
  | ValueError string
  | ClientError
  | APIStatusError string int string
  | OtherException

text \<open>
  \<open>APIStatusError message status_code body\<close> and \<open>APIConnectionError retryable cause\<close>
  are the two livekit exception classes the stream constructs; the cause is what
  \<^verbatim>\<open>raise ... from e\<close> attaches.
\<close>

datatype api_error = APIConnectionError bool exn

text \<open>
  What the source takes from outside the repository: the UTF-8 decoder of \<^verbatim>\<open>bytes\<close>,
  \<^verbatim>\<open>json.loads\<close> (both \<open>None\<close> where Python raises), and float truth value, float
  addition and the int-to-float conversion (\<open>None\<close> for its \<^verbatim>\<open>OverflowError\<close>).
\<close>

record 'f runtime =
  utf8_decode :: "string \<Rightarrow> pystr option"
  json_loads :: "pystr \<Rightarrow> 'f json option"
  float_bool :: "'f \<Rightarrow> bool"
  float_add :: "'f \<Rightarrow> 'f \<Rightarrow> 'f"
  float_of_int :: "int \<Rightarrow> 'f option"

text \<open>\<^verbatim>\<open>obj.get(key, default)\<close>: only a dictionary has the method.\<close>

fun py_get :: "'f json \<Rightarrow> string \<Rightarrow> 'f json \<Rightarrow> exn + 'f json" where
  "py_get (JObj kv) k d = Inr (case map_of kv k of None \<Rightarrow> d | Some v \<Rightarrow> v)"
| "py_get _ k d = Inl AttributeError"

text \<open>
  \<^verbatim>\<open>key in obj\<close> for a string key: key membership in a dictionary, substring test in a
  string, element test in a list, \<^verbatim>\<open>TypeError\<close> otherwise.
\<close>

fun py_contains :: "string \<Rightarrow> 'f json \<Rightarrow> exn + bool" where
  "py_contains k (JObj kv) = Inr (map_of kv k \<noteq> None)"
| "py_contains k (JStr s) = Inr (sublist k s)"
| "py_contains k (JArr xs) = Inr (JStr k \<in> set xs)"
| "py_contains k _ = Inl TypeError"

text \<open>\<^verbatim>\<open>obj[key]\<close> for a string key.\<close>

fun py_getitem :: "'f json \<Rightarrow> string \<Rightarrow> exn + 'f json" where
  "py_getitem (JObj kv) k = (case map_of kv k of None \<Rightarrow> Inl KeyError | Some v \<Rightarrow> Inr v)"
| "py_getitem _ k = Inl TypeError"

text \<open>The truth value \<^verbatim>\<open>not answer\<close> tests.\<close>

fun py_bool :: "'f runtime \<Rightarrow> 'f json \<Rightarrow> bool" where
  "py_bool rt JNull = False"
| "py_bool rt (JBool b) = b"
| "py_bool rt (JInt i) = (i \<noteq> 0)"
| "py_bool rt (JFloat x) = float_bool rt x"
| "py_bool rt (JStr s) = (s \<noteq> [])"
| "py_bool rt (JArr xs) = (xs \<noteq> [])"
| "py_bool rt (JObj kv) = (kv \<noteq> [])"

text \<open>
  \<^verbatim>\<open>a + b\<close>: numbers add (a boolean counts as 0 or 1, an integer meeting a float is
  converted first), strings and lists concatenate, everything else is a \<^verbatim>\<open>TypeError\<close>.
\<close>

datatype 'f number = NInt int | NFloat 'f

fun as_number :: "'f json \<Rightarrow> 'f number option" where
  "as_number (JBool b) = Some (NInt (if b then 1 else 0))"
| "as_number (JInt i) = Some (NInt i)"
| "as_number (JFloat x) = Some (NFloat x)"
| "as_number _ = None"

fun number_add :: "'f runtime \<Rightarrow> 'f number \<Rightarrow> 'f number \<Rightarrow> exn + 'f json" where
  "number_add rt (NInt a) (NInt b) = Inr (JInt (a + b))"
| "number_add rt (NFloat x) (NFloat y) = Inr (JFloat (float_add rt x y))"
| "number_add rt (NInt a) (NFloat y) =
     (case float_of_int rt a of None \<Rightarrow> Inl OverflowError
      | Some x \<Rightarrow> Inr (JFloat (float_add rt x y)))"
| "number_add rt (NFloat x) (NInt b) =
     (case float_of_int rt b of None \<Rightarrow> Inl OverflowError
      | Some y \<Rightarrow> Inr (JFloat (float_add rt x y)))"

fun py_add :: "'f runtime \<Rightarrow> 'f json \<Rightarrow> 'f json \<Rightarrow> exn + 'f json" where
  "py_add rt (JStr s) (JStr t) = Inr (JStr (s @ t))"
| "py_add rt (JArr xs) (JArr ys) = Inr (JArr (xs @ ys))"
| "py_add rt a b =
     (case (as_number a, as_number b) of
        (Some m, Some n) \<Rightarrow> number_add rt m n
      | _ \<Rightarrow> Inl TypeError)"

text \<open>
  \<^verbatim>\<open>str.strip()\<close> removes the whitespace code points from both ends. Python's whitespace
  is U+0009 to U+000D, U+001C to U+0020, U+0085, U+00A0, U+1680, U+2000 to U+200A,
  U+2028, U+2029, U+202F, U+205F and U+3000.
\<close>

definition py_isspace :: "nat \<Rightarrow> bool" where
  "py_isspace n =
     ((0x09 \<le> n \<and> n \<le> 0x0D) \<or> (0x1C \<le> n \<and> n \<le> 0x20) \<or> n = 0x85 \<or> n = 0xA0
      \<or> n = 0x1680 \<or> (0x2000 \<le> n \<and> n \<le> 0x200A) \<or> n = 0x2028 \<or> n = 0x2029
      \<or> n = 0x202F \<or> n = 0x205F \<or> n = 0x3000)"

definition strip :: "pystr \<Rightarrow> pystr" where
  "strip s = rev (dropWhile py_isspace (rev (dropWhile py_isspace s)))"

definition startswith :: "pystr \<Rightarrow> pystr \<Rightarrow> bool" where
  "startswith s p = (take (length p) s = p)"

section \<open>Chunks\<close>

text \<open>
  The fields of livekit's \<^verbatim>\<open>ChatChunk\<close>, \<^verbatim>\<open>Choice\<close>, \<^verbatim>\<open>ChoiceDelta\<close> and
  \<^verbatim>\<open>CompletionUsage\<close> that the adapter sets; \<open>choices\<close> defaults to the empty list and
  \<open>usage\<close> to \<open>None\<close>.
\<close>

record 'f ChoiceDelta =
  content :: "'f json"
  role :: string

record 'f Choice =
  delta :: "'f ChoiceDelta"

record 'f CompletionUsage =
  completion_tokens :: "'f json"
  prompt_tokens :: "'f json"
  total_tokens :: "'f json"

record 'f ChatChunk =
  request_id :: "'f json"
  choices :: "'f Choice list"
  usage :: "'f CompletionUsage option"

section \<open>LLMStream\<close>

text \<open>The three attributes \<^verbatim>\<open>LLMStream.__init__\<close> sets besides the response handle.\<close>

record 'f LLMStream =
  self_request_id :: "'f json"
  self_input_tokens :: "'f json"
  self_output_tokens :: "'f json"

definition LLMStream_init :: "'f LLMStream" where
  "LLMStream_init =
     \<lparr>self_request_id = JStr [], self_input_tokens = JInt 0, self_output_tokens = JInt 0\<rparr>"

text \<open>
  \<^verbatim>\<open>_parse_event\<close>: the result is the exception raised or the returned chunk
  (\<open>None\<close> for Python's \<^verbatim>\<open>None\<close>), together with the stream object after the call.
\<close>

definition update_usage :: "'f json \<Rightarrow> 'f LLMStream \<Rightarrow> (exn + unit) \<times> 'f LLMStream" where
  "update_usage event self =
     (case py_getitem event ''metadata'' of
        Inl e \<Rightarrow> (Inl e, self)
      | Inr metadata \<Rightarrow>
     (case py_getitem metadata ''usage'' of
        Inl e \<Rightarrow> (Inl e, self)
      | Inr usage_obj \<Rightarrow>
     (case py_get usage_obj ''prompt_tokens'' (JInt 0) of
        Inl e \<Rightarrow> (Inl e, self)
      | Inr p \<Rightarrow>
     (case py_get usage_obj ''completion_tokens'' (JInt 0) of
        Inl e \<Rightarrow> (Inl e, self\<lparr>self_input_tokens := p\<rparr>)
      | Inr c \<Rightarrow>
          (Inr (), self\<lparr>self_input_tokens := p, self_output_tokens := c\<rparr>)))))"

definition has_usage :: "'f json \<Rightarrow> exn + bool" where
  "has_usage event =
     (case py_contains ''metadata'' event of
        Inl e \<Rightarrow> Inl e
      | Inr False \<Rightarrow> Inr False
      | Inr True \<Rightarrow>
     (case py_getitem event ''metadata'' of
        Inl e \<Rightarrow> Inl e
      | Inr metadata \<Rightarrow> py_contains ''usage'' metadata))"

definition parse_event ::
  "'f runtime \<Rightarrow> 'f json \<Rightarrow> 'f LLMStream \<Rightarrow> (exn + 'f ChatChunk option) \<times> 'f LLMStream" where
  "parse_event rt event self =
     (case py_get event ''event'' JNull of
        Inl e \<Rightarrow> (Inl e, self)
      | Inr event_type \<Rightarrow>
          if event_type = JStr ''message_end'' then
            (case has_usage event of
               Inl e \<Rightarrow> (Inl e, self)
             | Inr False \<Rightarrow> (Inr None, self)
             | Inr True \<Rightarrow>
                 (case update_usage event self of
                    (Inl e, self') \<Rightarrow> (Inl e, self')
                  | (Inr _, self') \<Rightarrow> (Inr None, self')))
          else if event_type = JStr ''agent_message'' then
            (case py_get event ''answer'' (JStr []) of
               Inl e \<Rightarrow> (Inl e, self)
             | Inr answer \<Rightarrow>
                 if \<not> py_bool rt answer then (Inr None, self)
                 else
                   (case py_get event ''message_id'' (JStr []) of
                      Inl e \<Rightarrow> (Inl e, self)
                    | Inr mid \<Rightarrow>
                        (Inr (Some \<lparr>request_id = mid,
                                    choices = [\<lparr>delta = \<lparr>content = answer, role = ''assistant''\<rparr>\<rparr>],
                                    usage = None\<rparr>), self)))
          else (Inr None, self))"

text \<open>
  The state of one \<^verbatim>\<open>_run\<close>: the stream object, what has been sent on the event channel
  (oldest first) and the local flag \<^verbatim>\<open>retryable\<close>. The channel is unbounded and stays
  open while \<^verbatim>\<open>_run\<close> is active, so \<^verbatim>\<open>send_nowait\<close> appends and returns.
\<close>

record 'f run_state =
  stream :: "'f LLMStream"
  event_ch :: "'f ChatChunk list"
  retryable :: bool

text \<open>
  The body of the \<^verbatim>\<open>async for\<close> loop for one line. Whatever is raised inside the inner
  \<^verbatim>\<open>try\<close> is logged and dropped; assignments made before the raise stay.
\<close>

definition process_line :: "'f runtime \<Rightarrow> string \<Rightarrow> 'f run_state \<Rightarrow> 'f run_state" where
  "process_line rt line s =
     (if line = [] then s
      else
        (case utf8_decode rt line of
           None \<Rightarrow> s
         | Some text \<Rightarrow>
             let line' = strip text in
             if startswith line' (str_lit ''data: '') then
               (case json_loads rt (drop 6 line') of
                  None \<Rightarrow> s
                | Some data \<Rightarrow>
                    (case parse_event rt data (stream s) of
                       (Inl e, self') \<Rightarrow> s\<lparr>stream := self'\<rparr>
                     | (Inr None, self') \<Rightarrow> s\<lparr>stream := self'\<rparr>
                     | (Inr (Some chat_chunk), self') \<Rightarrow>
                         s\<lparr>stream := self', event_ch := event_ch s @ [chat_chunk],
                           retryable := False\<rparr>))
             else s))"

fun read_lines :: "'f runtime \<Rightarrow> string list \<Rightarrow> 'f run_state \<Rightarrow> 'f run_state" where
  "read_lines rt [] s = s"
| "read_lines rt (line # rest) s = read_lines rt rest (process_line rt line s)"

text \<open>The final usage chunk; the sum is computed before the chunk exists.\<close>

definition final_chunk :: "'f runtime \<Rightarrow> 'f LLMStream \<Rightarrow> exn + 'f ChatChunk" where
  "final_chunk rt self =
     (case py_add rt (self_input_tokens self) (self_output_tokens self) of
        Inl e \<Rightarrow> Inl e
      | Inr tot \<Rightarrow>
          Inr \<lparr>request_id = self_request_id self,
               choices = [],
               usage = Some \<lparr>completion_tokens = self_output_tokens self,
                             prompt_tokens = self_input_tokens self,
                             total_tokens = tot\<rparr>\<rparr>)"

text \<open>
  The HTTP response as the stream sees it: the status, the outcome of
  \<^verbatim>\<open>await response.text()\<close>, the lines the body iterator yields, and the exception that
  ends the iteration if the transport fails (\<open>None\<close> when the body is exhausted).
\<close>

record response =
  resp_status :: int
  resp_text :: "exn + string"
  resp_content :: "string list"
  resp_content_error :: "exn option"

text \<open>
  The \<^verbatim>\<open>try\<close> block of \<^verbatim>\<open>_run\<close>. The first argument is the outcome of awaiting the
  request: the exception it raised or the response.
\<close>

definition run_body ::
  "'f runtime \<Rightarrow> exn + response \<Rightarrow> 'f run_state \<Rightarrow> (exn + unit) \<times> 'f run_state" where
  "run_body rt awaited s =
     (case awaited of
        Inl e \<Rightarrow> (Inl e, s)
      | Inr response \<Rightarrow>
          if resp_status response \<noteq> 200 then
            (case resp_text response of
               Inl e \<Rightarrow> (Inl e, s)
             | Inr error_text \<Rightarrow>
                 (Inl (APIStatusError (''Dify API error: '' @ error_text)
                         (resp_status response) error_text), s))
          else
            let s' = read_lines rt (resp_content response) s in
            (case resp_content_error response of
               Some e \<Rightarrow> (Inl e, s')
             | None \<Rightarrow>
                 (case final_chunk rt (stream s') of
                    Inl e \<Rightarrow> (Inl e, s')
                  | Inr chunk \<Rightarrow> (Inr (), s'\<lparr>event_ch := event_ch s' @ [chunk]\<rparr>))))"

text \<open>
  \<^verbatim>\<open>_run\<close>: both \<^verbatim>\<open>except\<close> clauses raise \<^verbatim>\<open>APIConnectionError(retryable=retryable)\<close>
  from what was caught. The result is the chunks sent, the error raised (\<open>None\<close> when
  \<^verbatim>\<open>_run\<close> returns) and the stream object.
\<close>

definition run ::
  "'f runtime \<Rightarrow> exn + response \<Rightarrow> 'f LLMStream
     \<Rightarrow> 'f ChatChunk list \<times> api_error option \<times> 'f LLMStream" where
  "run rt awaited self0 =
     (case run_body rt awaited \<lparr>stream = self0, event_ch = [], retryable = True\<rparr> of
        (Inl e, s) \<Rightarrow> (event_ch s, Some (APIConnectionError (retryable s) e), stream s)
      | (Inr _, s) \<Rightarrow> (event_ch s, None, stream s))"

section \<open>LLM\<close>

text \<open>
  The temperature is a float that \<^verbatim>\<open>chat\<close> only passes on, and the content of a message
  is whatever the chat context holds; both are type parameters (\<open>'t\<close>, \<open>'c\<close>).
\<close>

record 't LLMOptions =
  api_key :: string
  api_base :: string
  temperature :: "'t option"
  conversation_id :: "string option"

record 'c ChatMessage =
  msg_role :: string
  msg_content :: 'c

text \<open>The values stored in the request payload, a dictionary in insertion order.\<close>

datatype ('c, 't) pvalue =
    PDict "(string \<times> ('c, 't) pvalue) list"
  | PStr string
  | PContent 'c
  | PTemp 't

text \<open>The arguments of one \<^verbatim>\<open>session.post\<close> call.\<close>

record ('c, 't) request =
  url :: string
  headers :: "(string \<times> string) list"
  json_body :: "(string \<times> ('c, 't) pvalue) list"

text \<open>
  The adapter object: its options and \<^verbatim>\<open>_session\<close>, \<open>None\<close> until the first request.
  A session is represented by the requests posted on it, oldest first.
\<close>

record ('c, 't) LLM =
  opts :: "'t LLMOptions"
  session :: "('c, 't) request list option"

text \<open>\<^verbatim>\<open>LLM.__init__\<close>, with the process environment as a map.\<close>

definition LLM_init ::
  "(string \<rightharpoonup> string) \<Rightarrow> string option \<Rightarrow> string option \<Rightarrow> 't option \<Rightarrow> string option
     \<Rightarrow> exn + ('c, 't) LLM" where
  "LLM_init environ key base temp conv =
     (let key' = (case key of
                    None \<Rightarrow> environ ''DIFY_API_KEY''
                  | Some k \<Rightarrow> if k = [] then environ ''DIFY_API_KEY'' else Some k)
      in case key' of
           None \<Rightarrow> Inl (ValueError ''Dify API key is required'')
         | Some k \<Rightarrow>
             Inr \<lparr>opts = \<lparr>api_key = k,
                          api_base = (case base of
                                        None \<Rightarrow> ''https://api.dify.ai''
                                      | Some b \<Rightarrow> if b = [] then ''https://api.dify.ai'' else b),
                          temperature = temp,
                          conversation_id = conv\<rparr>,
                  session = None\<rparr>)"

text \<open>
  \<^verbatim>\<open>LLM.chat\<close>: the exception raised or the request posted, and the adapter afterwards.
  The stream object built around the request starts as \<open>LLMStream_init\<close>.
\<close>

definition chat ::
  "('c, 't) LLM \<Rightarrow> 'c ChatMessage list \<Rightarrow> 't option
     \<Rightarrow> (exn + ('c, 't) request) \<times> ('c, 't) LLM" where
  "chat llm messages temp =
     (let temp' = (case temp of None \<Rightarrow> temperature (opts llm) | Some t \<Rightarrow> Some t)
      in case find (\<lambda>msg. msg_role msg = ''user'') (rev messages) of
           None \<Rightarrow> (Inl (ValueError ''No user message found in chat context''), llm)
         | Some last_message \<Rightarrow>
             let payload =
                   [(''inputs'', PDict []),
                    (''query'', PContent (msg_content last_message)),
                    (''response_mode'', PStr ''streaming''),
                    (''conversation_id'',
                       PStr (case conversation_id (opts llm) of None \<Rightarrow> [] | Some c \<Rightarrow> c)),
                    (''user'', PStr ''user'')];
                 payload' = (case temp' of
                               None \<Rightarrow> payload
                             | Some t \<Rightarrow> AList.update ''temperature'' (PTemp t) payload);
                 hdrs = [(''Authorization'', ''Bearer '' @ api_key (opts llm)),
                         (''Content-Type'', ''application/json'')];
                 posted = (case session llm of None \<Rightarrow> [] | Some reqs \<Rightarrow> reqs);
                 req = \<lparr>url = api_base (opts llm) @ ''/v1/chat-messages'',
                        headers = hdrs,
                        json_body = payload'\<rparr>
             in (Inr req, llm\<lparr>session := Some (posted @ [req])\<rparr>))"

section \<open>What a line and an event carry\<close>

text \<open>
  The event a line of the body delivers to \<^verbatim>\<open>_parse_event\<close>, \<open>None\<close> for a line the
  loop passes over: an empty line, one that does not decode, one without the prefix
  after trimming, one whose remainder \<^verbatim>\<open>json.loads\<close> rejects.
\<close>

definition line_event :: "'f runtime \<Rightarrow> string \<Rightarrow> 'f json option" where
  "line_event rt line =
     (if line = [] then None
      else case utf8_decode rt line of
             None \<Rightarrow> None
           | Some text \<Rightarrow>
               if startswith (strip text) (str_lit ''data: '') then
                 json_loads rt (drop 6 (strip text))
               else None)"

text \<open>The effect of one decoded event on the state of the loop.\<close>

definition apply_event :: "'f runtime \<Rightarrow> 'f json \<Rightarrow> 'f run_state \<Rightarrow> 'f run_state" where
  "apply_event rt data s =
     (case parse_event rt data (stream s) of
        (Inr (Some chat_chunk), self') \<Rightarrow>
          s\<lparr>stream := self', event_ch := event_ch s @ [chat_chunk], retryable := False\<rparr>
      | (_, self') \<Rightarrow> s\<lparr>stream := self'\<rparr>)"

definition dict_get :: "(string \<times> 'f json) list \<Rightarrow> string \<Rightarrow> 'f json \<Rightarrow> 'f json" where
  "dict_get kv k d = (case map_of kv k of None \<Rightarrow> d | Some v \<Rightarrow> v)"

text \<open>
  The usage a \<^verbatim>\<open>message_end\<close> event carries, in the words of the specification: the
  prompt and completion token values of the usage object inside its metadata object,
  an absent key read as 0; \<open>None\<close> for every event that carries no usage object.
\<close>

definition usage_carried :: "'f json \<Rightarrow> ('f json \<times> 'f json) option" where
  "usage_carried event =
     (case event of
        JObj kv \<Rightarrow>
          if map_of kv ''event'' = Some (JStr ''message_end'') then
            (case map_of kv ''metadata'' of
               Some (JObj md) \<Rightarrow>
                 (case map_of md ''usage'' of
                    Some (JObj u) \<Rightarrow>
                      Some (dict_get u ''prompt_tokens'' (JInt 0),
                            dict_get u ''completion_tokens'' (JInt 0))
                  | _ \<Rightarrow> None)
             | _ \<Rightarrow> None)
          else None
      | _ \<Rightarrow> None)"



text \<open>
  The message id an event supplies, in the words of the specification, and the last one
  supplied by the lines of a body (\<open>None\<close> if no event supplied any).
\<close>

definition message_id_supplied :: "'f json \<Rightarrow> 'f json option" where
  "message_id_supplied event =
     (case event of JObj kv \<Rightarrow> map_of kv ''message_id'' | _ \<Rightarrow> None)"

definition last_message_id :: "'f runtime \<Rightarrow> string list \<Rightarrow> 'f json option" where
  "last_message_id rt lines =
     (case List.map_filter (\<lambda>line. Option.bind (line_event rt line) message_id_supplied) lines of
        [] \<Rightarrow> None
      | ids \<Rightarrow> Some (last ids))"

section \<open>Sample inputs\<close>

text \<open>
  A runtime for the examples: the UTF-8 decoder in its strict form (no overlong form, no
  surrogate, nothing above U+10FFFF, no truncated sequence), and \<^verbatim>\<open>json.loads\<close>
  tabulated on the payloads below (none of them holds a float).
\<close>

definition is_cont :: "nat \<Rightarrow> bool" where
  "is_cont b = (0x80 \<le> b \<and> b < 0xC0)"

fun decode_utf8 :: "nat list \<Rightarrow> pystr option" where
  "decode_utf8 [] = Some []"
| "decode_utf8 (b # bs) =
     (if b < 0x80 then map_option ((#) b) (decode_utf8 bs)
      else if 0xC2 \<le> b \<and> b < 0xE0 then
        (case bs of
           b1 # rest \<Rightarrow>
             if is_cont b1
             then map_option ((#) ((b - 0xC0) * 64 + (b1 - 0x80))) (decode_utf8 rest)
             else None
         | _ \<Rightarrow> None)
      else if 0xE0 \<le> b \<and> b < 0xF0 then
        (case bs of
           b1 # b2 # rest \<Rightarrow>
             let cp = (b - 0xE0) * 4096 + (b1 - 0x80) * 64 + (b2 - 0x80) in
             if is_cont b1 \<and> is_cont b2 \<and> 0x800 \<le> cp \<and> \<not> (0xD800 \<le> cp \<and> cp < 0xE000)
             then map_option ((#) cp) (decode_utf8 rest)
             else None
         | _ \<Rightarrow> None)
      else if 0xF0 \<le> b \<and> b < 0xF5 then
        (case bs of
           b1 # b2 # b3 # rest \<Rightarrow>
             let cp = (b - 0xF0) * 262144 + (b1 - 0x80) * 4096 + (b2 - 0x80) * 64 + (b3 - 0x80) in
             if is_cont b1 \<and> is_cont b2 \<and> is_cont b3 \<and> 0x10000 \<le> cp \<and> cp < 0x110000
             then map_option ((#) cp) (decode_utf8 rest)
             else None
         | _ \<Rightarrow> None)
      else None)"

definition sample_agent_message :: string where
  \<open>sample_agent_message = ''{"event":"agent_message","answer":"Hi","message_id":"m1"}''\<close>

definition sample_end_10_5 :: string where
  \<open>sample_end_10_5 =
     ''{"event":"message_end","metadata":{"usage":{"prompt_tokens":10,"completion_tokens":5}}}''\<close>

definition sample_end_20_8 :: string where
  \<open>sample_end_20_8 =
     ''{"event":"message_end","metadata":{"usage":{"prompt_tokens":20,"completion_tokens":8}}}''\<close>

definition sample_end_null :: string where
  \<open>sample_end_null =
     ''{"event":"message_end","metadata":{"usage":{"prompt_tokens":null,"completion_tokens":5}}}''\<close>

definition message_end_event :: "(string \<times> 'f json) list \<Rightarrow> 'f json" where
  "message_end_event u =
     JObj [(''event'', JStr ''message_end''), (''metadata'', JObj [(''usage'', JObj u)])]"

definition sample_loads :: "pystr \<Rightarrow> unit json option" where
  "sample_loads s =
     (if s = str_lit sample_agent_message then
        Some (JObj [(''event'', JStr ''agent_message''), (''answer'', JStr ''Hi''),
                    (''message_id'', JStr ''m1'')])
      else if s = str_lit sample_end_10_5 then
        Some (message_end_event [(''prompt_tokens'', JInt 10), (''completion_tokens'', JInt 5)])
      else if s = str_lit sample_end_20_8 then
        Some (message_end_event [(''prompt_tokens'', JInt 20), (''completion_tokens'', JInt 8)])
      else if s = str_lit sample_end_null then
        Some (message_end_event [(''prompt_tokens'', JNull), (''completion_tokens'', JInt 5)])
      else None)"

definition sample_rt :: "unit runtime" where
  "sample_rt =
     \<lparr>utf8_decode = (\<lambda>line. decode_utf8 (map of_char line)),
      json_loads = sample_loads,
      float_bool = (\<lambda>_. True),
      float_add = (\<lambda>_ _. ()),
      float_of_int = (\<lambda>_. Some ())\<rparr>"

definition sample_line :: "string \<Rightarrow> string" where
  "sample_line payload = ''data: '' @ payload @ [CHR 0x0A]"

definition ok_response :: "string list \<Rightarrow> response" where
  "ok_response lines =
     \<lparr>resp_status = 200, resp_text = Inr [], resp_content = lines, resp_content_error = None\<rparr>"

text \<open>The chunk \<^verbatim>\<open>_parse_event\<close> returns for an answer: one assistant delta, no usage.\<close>

definition content_chunk :: "'f json \<Rightarrow> 'f json \<Rightarrow> 'f ChatChunk" where
  "content_chunk mid answer =
     \<lparr>request_id = mid,
      choices = [\<lparr>delta = \<lparr>content = answer, role = ''assistant''\<rparr>\<rparr>],
      usage = None\<rparr>"

text \<open>An adapter and a chat context for the examples.\<close>

definition sample_llm :: "int option \<Rightarrow> (string, int) LLM" where
  "sample_llm dflt =
     \<lparr>opts = \<lparr>api_key = ''app-key'', api_base = ''https://api.dify.ai'',
              temperature = dflt, conversation_id = None\<rparr>,
      session = None\<rparr>"

definition sample_messages :: "string ChatMessage list" where
  "sample_messages =
     [\<lparr>msg_role = ''system'', msg_content = ''Be brief.''\<rparr>,
      \<lparr>msg_role = ''user'', msg_content = ''Hello''\<rparr>,
      \<lparr>msg_role = ''assistant'', msg_content = ''Hi''\<rparr>,
      \<lparr>msg_role = ''user'', msg_content = ''Bye''\<rparr>,
      \<lparr>msg_role = ''assistant'', msg_content = ''See you''\<rparr>]"

section \<open>Facts about the event parser and the line loop\<close>

lemma process_line_eq:
  "process_line rt line s =
     (case line_event rt line of None \<Rightarrow> s | Some data \<Rightarrow> apply_event rt data s)"
  by (auto simp: process_line_def line_event_def apply_event_def Let_def
           split: option.splits sum.splits prod.splits)

lemma has_usage_JObj:
  "has_usage (JObj kv) =
     (case map_of kv ''metadata'' of
        None \<Rightarrow> Inr False
      | Some md \<Rightarrow> py_contains ''usage'' md)"
  by (auto simp: has_usage_def split: option.splits sum.splits bool.splits)

lemma update_usage_JObj:
  "map_of kv ''metadata'' = Some (JObj md) \<Longrightarrow> map_of md ''usage'' = Some (JObj u) \<Longrightarrow>
   update_usage (JObj kv) self =
     (Inr (), self\<lparr>self_input_tokens := dict_get u ''prompt_tokens'' (JInt 0),
                   self_output_tokens := dict_get u ''completion_tokens'' (JInt 0)\<rparr>)"
  by (simp add: update_usage_def dict_get_def)

lemma update_usage_not_obj:
  "map_of kv ''metadata'' = Some md \<Longrightarrow>
   (\<forall>m u. md = JObj m \<longrightarrow> map_of m ''usage'' \<noteq> Some (JObj u)) \<Longrightarrow>
   \<exists>e. update_usage (JObj kv) self = (Inl e, self)"
  apply (cases md; simp add: update_usage_def)
  subgoal for m
    apply (cases "map_of m ''usage''"; simp)
    subgoal for v by (cases v; simp)
    done
  done

lemma event_type_message_end:
  "py_get (JObj kv) ''event'' JNull = Inr (JStr ''message_end'')
     \<longleftrightarrow> map_of kv ''event'' = Some (JStr ''message_end'')"
  by (auto split: option.splits)

lemma event_type_agent_message:
  "py_get (JObj kv) ''event'' JNull = Inr (JStr ''agent_message'')
     \<longleftrightarrow> map_of kv ''event'' = Some (JStr ''agent_message'')"
  by (auto split: option.splits)

lemma parse_event_usage:
  assumes "map_of kv ''event'' = Some (JStr ''message_end'')"
    and "map_of kv ''metadata'' = Some (JObj md)"
    and "map_of md ''usage'' = Some (JObj u)"
  shows "parse_event rt (JObj kv) self =
           (Inr None, self\<lparr>self_input_tokens := dict_get u ''prompt_tokens'' (JInt 0),
                           self_output_tokens := dict_get u ''completion_tokens'' (JInt 0)\<rparr>)"
  using assms by (simp add: parse_event_def has_usage_JObj update_usage_JObj)

lemma parse_event_no_usage:
  assumes "map_of kv ''event'' = Some (JStr ''message_end'')"
    and "\<forall>md u. map_of kv ''metadata'' = Some (JObj md) \<longrightarrow> map_of md ''usage'' \<noteq> Some (JObj u)"
  shows "snd (parse_event rt (JObj kv) self) = self
         \<and> (\<forall>c. fst (parse_event rt (JObj kv) self) \<noteq> Inr (Some c))"
proof (cases "map_of kv ''metadata''")
  case None
  with assms show ?thesis by (simp add: parse_event_def has_usage_JObj)
next
  case (Some md)
  with assms(2) have no: "\<forall>m u. md = JObj m \<longrightarrow> map_of m ''usage'' \<noteq> Some (JObj u)" by simp
  from update_usage_not_obj[OF Some no] obtain e
    where "update_usage (JObj kv) self = (Inl e, self)" by blast
  with assms(1) Some show ?thesis
    by (auto simp: parse_event_def has_usage_JObj split: sum.splits bool.splits)
qed

lemma parse_event_message_end_no_chunk:
  assumes "map_of kv ''event'' = Some (JStr ''message_end'')"
  shows "fst (parse_event rt (JObj kv) self) \<noteq> Inr (Some c)"
  using assms
  by (auto simp: parse_event_def split: sum.splits bool.splits prod.splits)

lemma parse_event_other:
  assumes "py_get event ''event'' JNull \<noteq> Inr (JStr ''message_end'')"
  shows "snd (parse_event rt event self) = self"
  using assms by (auto simp: parse_event_def split: sum.splits)

lemma usage_carried_Some:
  "usage_carried event = Some pc \<longleftrightarrow>
     (\<exists>kv md u. event = JObj kv \<and> map_of kv ''event'' = Some (JStr ''message_end'')
        \<and> map_of kv ''metadata'' = Some (JObj md) \<and> map_of md ''usage'' = Some (JObj u)
        \<and> pc = (dict_get u ''prompt_tokens'' (JInt 0), dict_get u ''completion_tokens'' (JInt 0)))"
  by (auto simp: usage_carried_def split: json.splits option.splits if_splits)

lemma parse_event_state:
  "snd (parse_event rt event self) =
     (case usage_carried event of
        None \<Rightarrow> self
      | Some (p, c) \<Rightarrow> self\<lparr>self_input_tokens := p, self_output_tokens := c\<rparr>)"
proof (cases "usage_carried event")
  case (Some pc)
  then obtain kv md u where "event = JObj kv" "map_of kv ''event'' = Some (JStr ''message_end'')"
    "map_of kv ''metadata'' = Some (JObj md)" "map_of md ''usage'' = Some (JObj u)"
    "pc = (dict_get u ''prompt_tokens'' (JInt 0), dict_get u ''completion_tokens'' (JInt 0))"
    unfolding usage_carried_Some by blast
  with Some show ?thesis
    by (simp add: parse_event_usage)
next
  case None
  show ?thesis
  proof (cases "py_get event ''event'' JNull = Inr (JStr ''message_end'')")
    case False
    with None show ?thesis by (simp add: parse_event_other)
  next
    case True
    then obtain kv where kv: "event = JObj kv" by (cases event) auto
    with True have ev: "map_of kv ''event'' = Some (JStr ''message_end'')"
      by (simp only: event_type_message_end)
    have "\<forall>md u. map_of kv ''metadata'' = Some (JObj md) \<longrightarrow> map_of md ''usage'' \<noteq> Some (JObj u)"
    proof (intro allI impI notI)
      fix md u assume "map_of kv ''metadata'' = Some (JObj md)" "map_of md ''usage'' = Some (JObj u)"
      with ev kv have "usage_carried event \<noteq> None" by (simp add: usage_carried_def)
      with None show False by simp
    qed
    from parse_event_no_usage[OF ev this] None kv show ?thesis by simp
  qed
qed

lemma parse_event_request_id:
  "self_request_id (snd (parse_event rt event self)) = self_request_id self"
  by (simp add: parse_event_state split: option.splits prod.splits)

lemma parse_event_chunk:
  assumes "fst (parse_event rt event self) = Inr (Some c)"
  shows "usage c = None \<and> choices c \<noteq> []"
  using assms
  by (auto simp: parse_event_def split: sum.splits bool.splits prod.splits if_splits)

lemma read_lines_append:
  "read_lines rt (xs @ ys) s = read_lines rt ys (read_lines rt xs s)"
  by (induction xs arbitrary: s) simp_all

lemma apply_event_stream:
  "stream (apply_event rt data s) = snd (parse_event rt data (stream s))"
  by (auto simp: apply_event_def split: prod.splits sum.splits option.splits)

lemma apply_event_cases:
  "(\<exists>c. fst (parse_event rt data (stream s)) = Inr (Some c)
        \<and> event_ch (apply_event rt data s) = event_ch s @ [c]
        \<and> \<not> retryable (apply_event rt data s))
   \<or> (event_ch (apply_event rt data s) = event_ch s
        \<and> retryable (apply_event rt data s) = retryable s)"
  by (auto simp: apply_event_def split: prod.splits sum.splits option.splits)

lemma process_line_request_id:
  "self_request_id (stream (process_line rt line s)) = self_request_id (stream s)"
  by (simp add: process_line_eq apply_event_stream parse_event_request_id split: option.splits)

lemma read_lines_request_id:
  "self_request_id (stream (read_lines rt lines s)) = self_request_id (stream s)"
  by (induction lines arbitrary: s) (simp_all add: process_line_request_id)

lemma process_line_retryable:
  "retryable (process_line rt line s) = (retryable s \<and> event_ch (process_line rt line s) = event_ch s)"
proof (cases "line_event rt line")
  case None then show ?thesis by (simp add: process_line_eq)
next
  case (Some data)
  from apply_event_cases[of rt data s] Some show ?thesis
    by (auto simp: process_line_eq)
qed

lemma process_line_event_ch_prefix:
  "\<exists>cs. event_ch (process_line rt line s) = event_ch s @ cs \<and> (\<forall>c\<in>set cs. usage c = None \<and> choices c \<noteq> [])"
proof (cases "line_event rt line")
  case None then show ?thesis by (simp add: process_line_eq)
next
  case (Some data)
  from apply_event_cases[of rt data s] show ?thesis
  proof
    assume "\<exists>c. fst (parse_event rt data (stream s)) = Inr (Some c)
        \<and> event_ch (apply_event rt data s) = event_ch s @ [c]
        \<and> \<not> retryable (apply_event rt data s)"
    then obtain c where c: "fst (parse_event rt data (stream s)) = Inr (Some c)"
      "event_ch (apply_event rt data s) = event_ch s @ [c]" by blast
    from parse_event_chunk[OF c(1)] c(2) Some show ?thesis
      by (simp add: process_line_eq)
  next
    assume "event_ch (apply_event rt data s) = event_ch s
        \<and> retryable (apply_event rt data s) = retryable s"
    with Some show ?thesis by (simp add: process_line_eq)
  qed
qed

lemma read_lines_event_ch_prefix:
  "\<exists>cs. event_ch (read_lines rt lines s) = event_ch s @ cs \<and> (\<forall>c\<in>set cs. usage c = None \<and> choices c \<noteq> [])"
proof (induction lines arbitrary: s)
  case Nil show ?case by simp
next
  case (Cons line rest)
  from process_line_event_ch_prefix[of rt line s] obtain cs where
    cs: "event_ch (process_line rt line s) = event_ch s @ cs" "\<forall>c\<in>set cs. usage c = None \<and> choices c \<noteq> []"
    by blast
  from Cons.IH[of "process_line rt line s"] obtain ds where
    ds: "event_ch (read_lines rt rest (process_line rt line s)) = event_ch (process_line rt line s) @ ds"
      "\<forall>c\<in>set ds. usage c = None \<and> choices c \<noteq> []" by blast
  show ?case
    apply (rule exI[of _ "cs @ ds"])
    using cs ds by auto
qed

lemma read_lines_retryable:
  "retryable (read_lines rt lines s) = (retryable s \<and> event_ch (read_lines rt lines s) = event_ch s)"
proof (induction lines arbitrary: s)
  case Nil show ?case by simp
next
  case (Cons line rest)
  from process_line_event_ch_prefix[of rt line s] obtain cs where
    cs: "event_ch (process_line rt line s) = event_ch s @ cs" by blast
  from read_lines_event_ch_prefix[of rt rest "process_line rt line s"] obtain ds where
    ds: "event_ch (read_lines rt rest (process_line rt line s)) = event_ch (process_line rt line s) @ ds"
    by blast
  show ?case
    using Cons.IH[of "process_line rt line s"] process_line_retryable[of rt line s] cs ds
    by auto
qed





lemma run_final_request_id:
  assumes "run rt awaited self0 = (chunks, None, self')"
  shows "chunks \<noteq> [] \<and> request_id (last chunks) = self_request_id self0"
proof -
  let ?init = "\<lparr>stream = self0, event_ch = [], retryable = True\<rparr>"
  obtain res s where rb: "run_body rt awaited ?init = (res, s)"
    by (cases "run_body rt awaited ?init")
  with assms have out: "chunks = event_ch s" and ok: "\<exists>u. res = Inr u"
    by (auto simp: run_def split: sum.splits)
  from rb ok obtain ls chunk where
    fc: "final_chunk rt (stream (read_lines rt ls ?init)) = Inr chunk"
    and s: "s = (read_lines rt ls ?init)\<lparr>event_ch := event_ch (read_lines rt ls ?init) @ [chunk]\<rparr>"
    by (auto simp: run_body_def Let_def split: sum.splits if_splits option.splits)
  from fc have "request_id chunk = self_request_id (stream (read_lines rt ls ?init))"
    by (auto simp: final_chunk_def split: sum.splits)
  then have "request_id chunk = self_request_id self0"
    by (simp add: read_lines_request_id)
  with out s show ?thesis by simp
qed

lemma run_body_content_cong:
  assumes "\<And>s. read_lines rt ls s = read_lines rt ls' s"
  shows "run_body rt (Inr (r\<lparr>resp_content := ls\<rparr>)) s = run_body rt (Inr (r\<lparr>resp_content := ls'\<rparr>)) s"
  using assms by (simp add: run_body_def split: sum.splits)

section \<open>Facts about chat\<close>

lemma find_rev_last:
  "find P (rev xs) = (if filter P xs = [] then None else Some (last (filter P xs)))"
  by (induction xs rule: rev_induct) simp_all

lemma chat_no_user:
  assumes "\<forall>m\<in>set messages. msg_role m \<noteq> ''user''"
  shows "chat llm messages temp = (Inl (ValueError ''No user message found in chat context''), llm)"
proof -
  from assms have "filter (\<lambda>msg. msg_role msg = ''user'') messages = []"
    by (simp add: filter_empty_conv)
  then show ?thesis by (simp add: chat_def find_rev_last)
qed

lemma chat_user:
  assumes "\<exists>m\<in>set messages. msg_role m = ''user''"
  shows "chat llm messages temp =
     (let req = \<lparr>url = api_base (opts llm) @ ''/v1/chat-messages'',
                 headers = [(''Authorization'', ''Bearer '' @ api_key (opts llm)),
                            (''Content-Type'', ''application/json'')],
                 json_body =
                   [(''inputs'', PDict []),
                    (''query'', PContent (msg_content
                       (last (filter (\<lambda>msg. msg_role msg = ''user'') messages)))),
                    (''response_mode'', PStr ''streaming''),
                    (''conversation_id'',
                       PStr (case conversation_id (opts llm) of None \<Rightarrow> [] | Some c \<Rightarrow> c)),
                    (''user'', PStr ''user'')]
                   @ (case (case temp of None \<Rightarrow> temperature (opts llm) | Some t \<Rightarrow> Some t) of
                        None \<Rightarrow> []
                      | Some t \<Rightarrow> [(''temperature'', PTemp t)])\<rparr>
      in (Inr req,
          llm\<lparr>session := Some ((case session llm of None \<Rightarrow> [] | Some reqs \<Rightarrow> reqs) @ [req])\<rparr>))"
proof -
  from assms have "filter (\<lambda>msg. msg_role msg = ''user'') messages \<noteq> []"
    by (auto simp: filter_empty_conv)
  then show ?thesis
    by (simp add: chat_def find_rev_last Let_def split: option.splits)
qed

section \<open>The claims of the specification\<close>




text \<open>
  Claim C2, evaluated on the code. A response with status 401 and body
  \<^verbatim>\<open>{"error":"bad key"}\<close>: the \<^verbatim>\<open>APIStatusError\<close> raised inside the \<^verbatim>\<open>try\<close> block is
  caught by \<^verbatim>\<open>except Exception\<close> and leaves \<^verbatim>\<open>_run\<close> as a retryable
  \<^verbatim>\<open>APIConnectionError\<close> that holds the status error only as its cause. No chunk is sent.
\<close>

theorem status_error_converted:
  \<open>run sample_rt
     (Inr \<lparr>resp_status = 401, resp_text = Inr ''{"error":"bad key"}'',
           resp_content = [], resp_content_error = None\<rparr>) LLMStream_init =
     ([], Some (APIConnectionError True
                 (APIStatusError ''Dify API error: {"error":"bad key"}'' 401
                    ''{"error":"bad key"}'')),
      LLMStream_init)\<close>
  by (simp add: run_def run_body_def)

text \<open>
  Claim C3, evaluated on the code. The body holds one \<^verbatim>\<open>agent_message\<close> event with
  message id \<^verbatim>\<open>m1\<close>, so the last message id supplied is \<^verbatim>\<open>m1\<close>; the final chunk
  nevertheless carries the empty string, because nothing ever assigns
  \<^verbatim>\<open>self._request_id\<close>.
\<close>

theorem final_chunk_request_id_empty:
  "last_message_id sample_rt [sample_line sample_agent_message] = Some (JStr ''m1'')
   \<and> run sample_rt (Inr (ok_response [sample_line sample_agent_message])) LLMStream_init =
       ([\<lparr>request_id = JStr ''m1'',
          choices = [\<lparr>delta = \<lparr>content = JStr ''Hi'', role = ''assistant''\<rparr>\<rparr>],
          usage = None\<rparr>,
         \<lparr>request_id = JStr [], choices = [],
          usage = Some \<lparr>completion_tokens = JInt 0, prompt_tokens = JInt 0,
                        total_tokens = JInt 0\<rparr>\<rparr>],
        None, LLMStream_init)"
  by code_simp

text \<open>
  Claim C4. If no message of the chat context has role \<^verbatim>\<open>user\<close>, \<^verbatim>\<open>chat\<close> raises
  \<^verbatim>\<open>ValueError\<close> (the configuration error of the specification) and the adapter is left
  as it was: no session is created and nothing is posted. If some message has role
  \<^verbatim>\<open>user\<close>, \<^verbatim>\<open>chat\<close> posts one request on the session, and the \<^verbatim>\<open>query\<close> of its
  payload is the content of the last such message.
\<close>

theorem chat_requires_user_message:
  "((\<forall>m\<in>set messages. msg_role m \<noteq> ''user'') \<longrightarrow>
       chat llm messages temp
         = (Inl (ValueError ''No user message found in chat context''), llm))
   \<and> ((\<exists>m\<in>set messages. msg_role m = ''user'') \<longrightarrow>
       (\<exists>req. chat llm messages temp
                = (Inr req,
                   llm\<lparr>session :=
                         Some ((case session llm of None \<Rightarrow> [] | Some reqs \<Rightarrow> reqs) @ [req])\<rparr>)
          \<and> map_of (json_body req) ''query''
              = Some (PContent (msg_content
                   (last (filter (\<lambda>m. msg_role m = ''user'') messages))))))"
proof (intro conjI impI)
  assume "\<forall>m\<in>set messages. msg_role m \<noteq> ''user''"
  then show "chat llm messages temp
         = (Inl (ValueError ''No user message found in chat context''), llm)"
    by (rule chat_no_user)
next
  assume "\<exists>m\<in>set messages. msg_role m = ''user''"
  from chat_user[OF this, of llm temp]
  show "\<exists>req. chat llm messages temp
                = (Inr req,
                   llm\<lparr>session :=
                         Some ((case session llm of None \<Rightarrow> [] | Some reqs \<Rightarrow> reqs) @ [req])\<rparr>)
          \<and> map_of (json_body req) ''query''
              = Some (PContent (msg_content
                   (last (filter (\<lambda>m. msg_role m = ''user'') messages))))"
    by (simp add: Let_def)
qed

text \<open>The theorem at a context without a user message and at one with two.\<close>

theorem chat_requires_user_message_witness:
  "filter (\<lambda>m. msg_role m = ''user'')
       [\<lparr>msg_role = ''system'', msg_content = ''Be brief.''\<rparr>,
        \<lparr>msg_role = ''assistant'', msg_content = ''Hi''\<rparr>] = []
   \<and> chat (sample_llm None)
        [\<lparr>msg_role = ''system'', msg_content = ''Be brief.''\<rparr>,
         \<lparr>msg_role = ''assistant'', msg_content = ''Hi''\<rparr>] None
      = (Inl (ValueError ''No user message found in chat context''), sample_llm None)
   \<and> session (sample_llm None) = None
   \<and> (\<exists>m\<in>set sample_messages. msg_role m = ''user'')
   \<and> (\<exists>req. fst (chat (sample_llm None) sample_messages None) = Inr req
         \<and> map_of (json_body req) ''query'' = Some (PContent ''Bye''))"
proof -
  let ?none = "[\<lparr>msg_role = ''system'', msg_content = ''Be brief.''\<rparr>,
         \<lparr>msg_role = ''assistant'', msg_content = ''Hi''\<rparr>]"
  have h1: "\<forall>m\<in>set ?none. msg_role m \<noteq> ''user''" by simp
  have h2: "\<exists>m\<in>set sample_messages. msg_role m = ''user''"
    by (simp add: sample_messages_def)
  have l: "msg_content (last (filter (\<lambda>m. msg_role m = ''user'') sample_messages)) = ''Bye''"
    by (simp add: sample_messages_def)
  from chat_requires_user_message[of ?none "sample_llm None" None] h1
  have a: "chat (sample_llm None) ?none None
      = (Inl (ValueError ''No user message found in chat context''), sample_llm None)"
    by blast
  from chat_requires_user_message[of sample_messages "sample_llm None" None] h2 l
  have b: "\<exists>req. fst (chat (sample_llm None) sample_messages None) = Inr req
         \<and> map_of (json_body req) ''query'' = Some (PContent ''Bye'')"
    by auto
  have c: "session (sample_llm None) = None" by (simp add: sample_llm_def)
  have f: "filter (\<lambda>m. msg_role m = ''user'') ?none = []" by simp
  from f a c h2 b show ?thesis by blast
qed

text \<open>
  Claim C5. A line that, once decoded and trimmed, does not start with \<^verbatim>\<open>data: \<close>, or
  whose remainder \<^verbatim>\<open>json.loads\<close> rejects, changes nothing: the loop state after it is
  the state before it, so the lines after it are processed as if it were absent, and
  \<^verbatim>\<open>_run\<close> on the whole body gives the chunks, outcome and counters it gives on the
  body without that line.
\<close>

theorem malformed_line_skipped:
  assumes "\<forall>decoded. utf8_decode rt line = Some decoded \<longrightarrow>
             \<not> startswith (strip decoded) (str_lit ''data: '')
             \<or> json_loads rt (drop 6 (strip decoded)) = None"
  shows "process_line rt line s = s
       \<and> read_lines rt (before @ [line] @ after) s = read_lines rt (before @ after) s
       \<and> run rt (Inr (r\<lparr>resp_content := before @ [line] @ after\<rparr>)) self0
           = run rt (Inr (r\<lparr>resp_content := before @ after\<rparr>)) self0"
proof -
  from assms have ev: "line_event rt line = None"
    by (auto simp: line_event_def split: option.splits)
  then have skip: "\<And>s'. process_line rt line s' = s'"
    by (simp add: process_line_eq)
  then have rl: "\<And>s'. read_lines rt (before @ [line] @ after) s' = read_lines rt (before @ after) s'"
    by (simp add: read_lines_append)
  from run_body_content_cong[of rt "before @ [line] @ after" "before @ after" r] rl
  have "run rt (Inr (r\<lparr>resp_content := before @ [line] @ after\<rparr>)) self0
           = run rt (Inr (r\<lparr>resp_content := before @ after\<rparr>)) self0"
    by (simp add: run_def)
  with skip rl show ?thesis by simp
qed

text \<open>
  The theorem at a line without the prefix and at a line with truncated JSON, between
  an answer and a usage event.
\<close>

theorem malformed_line_skipped_witness:
  \<open>run sample_rt (Inr (ok_response
       [sample_line sample_agent_message, ''event: ping'', ''data: {"event":'',
        sample_line sample_end_10_5])) LLMStream_init
   = run sample_rt (Inr (ok_response
       [sample_line sample_agent_message, sample_line sample_end_10_5])) LLMStream_init
   \<and> fst (run sample_rt (Inr (ok_response
       [sample_line sample_agent_message, sample_line sample_end_10_5])) LLMStream_init)
     = [\<lparr>request_id = JStr ''m1'',
         choices = [\<lparr>delta = \<lparr>content = JStr ''Hi'', role = ''assistant''\<rparr>\<rparr>],
         usage = None\<rparr>,
        \<lparr>request_id = JStr [], choices = [],
         usage = Some \<lparr>completion_tokens = JInt 5, prompt_tokens = JInt 10,
                       total_tokens = JInt 15\<rparr>\<rparr>]\<close>
proof -
  have d1: "utf8_decode sample_rt ''event: ping'' = Some (str_lit ''event: ping'')"
    by code_simp
  have p1: "\<not> startswith (strip (str_lit ''event: ping'')) (str_lit ''data: '')"
    by code_simp
  have h1: "\<forall>decoded. utf8_decode sample_rt ''event: ping'' = Some decoded \<longrightarrow>
             \<not> startswith (strip decoded) (str_lit ''data: '')
             \<or> json_loads sample_rt (drop 6 (strip decoded)) = None"
    using d1 p1 by simp
  have d2: \<open>utf8_decode sample_rt ''data: {"event":'' = Some (str_lit ''data: {"event":'')\<close>
    by code_simp
  have p2: \<open>json_loads sample_rt (drop 6 (strip (str_lit ''data: {"event":''))) = None\<close>
    by code_simp
  have h2: \<open>\<forall>decoded. utf8_decode sample_rt ''data: {"event":'' = Some decoded \<longrightarrow>
             \<not> startswith (strip decoded) (str_lit ''data: '')
             \<or> json_loads sample_rt (drop 6 (strip decoded)) = None\<close>
    using d2 p2 by simp
  have a: \<open>run sample_rt (Inr (ok_response
       [sample_line sample_agent_message, ''event: ping'', ''data: {"event":'',
        sample_line sample_end_10_5])) LLMStream_init
     = run sample_rt (Inr (ok_response
       [sample_line sample_agent_message, ''data: {"event":'',
        sample_line sample_end_10_5])) LLMStream_init\<close>
    using malformed_line_skipped[OF h1, of \<open>\<lparr>stream = LLMStream_init, event_ch = [], retryable = True\<rparr>\<close>
        "[sample_line sample_agent_message]"
        \<open>[''data: {"event":'', sample_line sample_end_10_5]\<close> "ok_response []" LLMStream_init]
    by (simp add: ok_response_def)
  have b: \<open>run sample_rt (Inr (ok_response
       [sample_line sample_agent_message, ''data: {"event":'',
        sample_line sample_end_10_5])) LLMStream_init
     = run sample_rt (Inr (ok_response
       [sample_line sample_agent_message, sample_line sample_end_10_5])) LLMStream_init\<close>
    using malformed_line_skipped[OF h2, of \<open>\<lparr>stream = LLMStream_init, event_ch = [], retryable = True\<rparr>\<close>
        "[sample_line sample_agent_message]"
        \<open>[sample_line sample_end_10_5]\<close> "ok_response []" LLMStream_init]
    by (simp add: ok_response_def)
  have c: "fst (run sample_rt (Inr (ok_response
       [sample_line sample_agent_message, sample_line sample_end_10_5])) LLMStream_init)
     = [\<lparr>request_id = JStr ''m1'',
         choices = [\<lparr>delta = \<lparr>content = JStr ''Hi'', role = ''assistant''\<rparr>\<rparr>],
         usage = None\<rparr>,
        \<lparr>request_id = JStr [], choices = [],
         usage = Some \<lparr>completion_tokens = JInt 5, prompt_tokens = JInt 10,
                       total_tokens = JInt 15\<rparr>\<rparr>]"
    by code_simp
  from a b c show ?thesis by simp
qed

text \<open>
  Claim C6. Whenever \<^verbatim>\<open>_run\<close> raises, the connection error is marked retryable exactly
  when no chunk has been sent, and every chunk sent before it is a content chunk. Inside
  the loop the flag stays true only as long as nothing has been sent; once false it
  stays false.
\<close>

theorem retryable_iff_nothing_sent:
  "(run rt awaited self0 = (chunks, Some (APIConnectionError r cause), self') \<longrightarrow>
      r = (chunks = []) \<and> (\<forall>c\<in>set chunks. usage c = None \<and> choices c \<noteq> []))
   \<and> retryable (read_lines rt lines s)
       = (retryable s \<and> event_ch (read_lines rt lines s) = event_ch s)
   \<and> (\<not> retryable s \<longrightarrow> \<not> retryable (read_lines rt lines s))"
proof -
  have 1: "r = (chunks = []) \<and> (\<forall>c\<in>set chunks. usage c = None \<and> choices c \<noteq> [])"
    if run: "run rt awaited self0 = (chunks, Some (APIConnectionError r cause), self')"
  proof -
    let ?init = "\<lparr>stream = self0, event_ch = [], retryable = True\<rparr>"
    obtain res s where rb: "run_body rt awaited ?init = (res, s)"
      by (cases "run_body rt awaited ?init")
    with run have out: "chunks = event_ch s" "r = retryable s"
      by (auto simp: run_def split: sum.splits)
    have "s = ?init \<or> (\<exists>ls. s = read_lines rt ls ?init)"
      using rb run
      by (auto simp: run_def run_body_def Let_def split: sum.splits if_splits option.splits)
    then have "retryable s = (event_ch s = [])
        \<and> (\<forall>c\<in>set (event_ch s). usage c = None \<and> choices c \<noteq> [])"
    proof
      assume "s = ?init" then show ?thesis by simp
    next
      assume "\<exists>ls. s = read_lines rt ls ?init"
      then obtain ls where s: "s = read_lines rt ls ?init" by blast
      from read_lines_retryable[of rt ls ?init] read_lines_event_ch_prefix[of rt ls ?init] s
      show ?thesis by auto
    qed
    with out show ?thesis by simp
  qed
  have 2: "retryable (read_lines rt lines s)
       = (retryable s \<and> event_ch (read_lines rt lines s) = event_ch s)"
    by (rule read_lines_retryable)
  from 1 2 show ?thesis by blast
qed

text \<open>
  The theorem at a transport failure after one answer (not retryable) and, for
  comparison, the same failure after a usage event only (retryable).
\<close>

theorem retryable_iff_nothing_sent_witness:
  "run sample_rt
     (Inr \<lparr>resp_status = 200, resp_text = Inr [],
           resp_content = [sample_line sample_agent_message],
           resp_content_error = Some ClientError\<rparr>) LLMStream_init
     = ([\<lparr>request_id = JStr ''m1'',
          choices = [\<lparr>delta = \<lparr>content = JStr ''Hi'', role = ''assistant''\<rparr>\<rparr>],
          usage = None\<rparr>],
        Some (APIConnectionError False ClientError), LLMStream_init)
   \<and> False = ([\<lparr>request_id = JStr ''m1'',
          choices = [\<lparr>delta = \<lparr>content = JStr ''Hi'', role = ''assistant''\<rparr>\<rparr>],
          usage = None\<rparr> :: unit ChatChunk] = [])
   \<and> run sample_rt
     (Inr \<lparr>resp_status = 200, resp_text = Inr [],
           resp_content = [sample_line sample_end_10_5],
           resp_content_error = Some ClientError\<rparr>) LLMStream_init
     = ([], Some (APIConnectionError True ClientError),
        \<lparr>self_request_id = JStr [], self_input_tokens = JInt 10, self_output_tokens = JInt 5\<rparr>)
   \<and> \<not> retryable (read_lines sample_rt [sample_line sample_end_10_5]
          \<lparr>stream = LLMStream_init, event_ch = [], retryable = False\<rparr>)"
proof -
  let ?c = "\<lparr>request_id = JStr ''m1'',
          choices = [\<lparr>delta = \<lparr>content = JStr ''Hi'', role = ''assistant''\<rparr>\<rparr>],
          usage = None\<rparr> :: unit ChatChunk"
  have r1: "run sample_rt
     (Inr \<lparr>resp_status = 200, resp_text = Inr [],
           resp_content = [sample_line sample_agent_message],
           resp_content_error = Some ClientError\<rparr>) LLMStream_init
     = ([?c], Some (APIConnectionError False ClientError), LLMStream_init)"
    by code_simp
  have r2: "run sample_rt
     (Inr \<lparr>resp_status = 200, resp_text = Inr [],
           resp_content = [sample_line sample_end_10_5],
           resp_content_error = Some ClientError\<rparr>) LLMStream_init
     = ([], Some (APIConnectionError True ClientError),
        \<lparr>self_request_id = JStr [], self_input_tokens = JInt 10, self_output_tokens = JInt 5\<rparr>)"
    by code_simp
  have n: "\<not> retryable \<lparr>stream = LLMStream_init :: unit LLMStream, event_ch = [], retryable = False\<rparr>"
    by simp
  from retryable_iff_nothing_sent[of sample_rt _ LLMStream_init "[?c]" False ClientError LLMStream_init
      "[sample_line sample_end_10_5]" "\<lparr>stream = LLMStream_init, event_ch = [], retryable = False\<rparr>"] r1 n
  have "False = ([?c] = [])"
    and "\<not> retryable (read_lines sample_rt [sample_line sample_end_10_5]
          \<lparr>stream = LLMStream_init, event_ch = [], retryable = False\<rparr>)"
    by blast+
  with r1 r2 show ?thesis by blast
qed

text \<open>
  Claim C7. For an event with discriminator \<^verbatim>\<open>agent_message\<close>: no chunk if the answer
  is absent or empty (false in Python's sense: the empty string, and also \<^verbatim>\<open>null\<close>, 0,
  \<^verbatim>\<open>false\<close>, an empty list or object); otherwise exactly one chunk with the event's
  message id as request id (the empty string if the event has none), one delta of role
  \<^verbatim>\<open>assistant\<close> whose content is the answer, and no usage. For an event whose
  discriminator is neither \<^verbatim>\<open>agent_message\<close> nor \<^verbatim>\<open>message_end\<close>: no chunk. The
  stream object is unchanged in all these cases. Last, the line of the scenario, given
  that \<^verbatim>\<open>json.loads\<close> reads its payload as the evident object.
\<close>

theorem parse_event_agent_message:
  "(map_of kv ''event'' = Some (JStr ''agent_message'') \<longrightarrow>
      (map_of kv ''answer'' = None \<longrightarrow> parse_event rt (JObj kv) self = (Inr None, self))
    \<and> (\<forall>answer. map_of kv ''answer'' = Some answer \<and> \<not> py_bool rt answer \<longrightarrow>
          parse_event rt (JObj kv) self = (Inr None, self))
    \<and> (\<forall>answer. map_of kv ''answer'' = Some answer \<and> py_bool rt answer \<longrightarrow>
          parse_event rt (JObj kv) self =
            (Inr (Some (content_chunk (dict_get kv ''message_id'' (JStr [])) answer)), self))
    \<and> (map_of kv ''answer'' = Some (JStr []) \<longrightarrow>
          parse_event rt (JObj kv) self = (Inr None, self))
    \<and> (\<forall>a mid. map_of kv ''answer'' = Some (JStr a) \<and> a \<noteq> []
            \<and> map_of kv ''message_id'' = Some mid \<longrightarrow>
          parse_event rt (JObj kv) self = (Inr (Some (content_chunk mid (JStr a))), self)))
   \<and> (map_of kv ''event'' \<noteq> Some (JStr ''agent_message'')
        \<and> map_of kv ''event'' \<noteq> Some (JStr ''message_end'') \<longrightarrow>
        parse_event rt (JObj kv) self = (Inr None, self))
   \<and> (line \<noteq> [] \<and> utf8_decode rt line = Some decoded
        \<and> strip decoded = str_lit ''data: '' @ payload
        \<and> json_loads rt payload =
             Some (JObj [(''event'', JStr ''agent_message''), (''answer'', JStr ''Hi''),
                         (''message_id'', JStr ''m1'')]) \<longrightarrow>
        process_line rt line s =
          s\<lparr>event_ch :=
               event_ch s @ [\<lparr>request_id = JStr ''m1'',
                               choices = [\<lparr>delta = \<lparr>content = JStr ''Hi'',
                                                     role = ''assistant''\<rparr>\<rparr>],
                               usage = None\<rparr>],
            retryable := False\<rparr>)"
proof (intro conjI impI allI)
  assume "map_of kv ''event'' = Some (JStr ''agent_message'')" "map_of kv ''answer'' = None"
  then show "parse_event rt (JObj kv) self = (Inr None, self)"
    by (simp add: parse_event_def)
next
  fix answer
  assume "map_of kv ''event'' = Some (JStr ''agent_message'')"
    "map_of kv ''answer'' = Some answer \<and> \<not> py_bool rt answer"
  then show "parse_event rt (JObj kv) self = (Inr None, self)"
    by (simp add: parse_event_def)
next
  fix answer
  assume "map_of kv ''event'' = Some (JStr ''agent_message'')"
    "map_of kv ''answer'' = Some answer \<and> py_bool rt answer"
  then show "parse_event rt (JObj kv) self =
            (Inr (Some (content_chunk (dict_get kv ''message_id'' (JStr [])) answer)), self)"
    by (simp add: parse_event_def content_chunk_def dict_get_def)
next
  assume "map_of kv ''event'' = Some (JStr ''agent_message'')"
    "map_of kv ''answer'' = Some (JStr [])"
  then show "parse_event rt (JObj kv) self = (Inr None, self)"
    by (simp add: parse_event_def)
next
  fix a mid
  assume "map_of kv ''event'' = Some (JStr ''agent_message'')"
    "map_of kv ''answer'' = Some (JStr a) \<and> a \<noteq> [] \<and> map_of kv ''message_id'' = Some mid"
  then show "parse_event rt (JObj kv) self = (Inr (Some (content_chunk mid (JStr a))), self)"
    by (simp add: parse_event_def content_chunk_def)
next
  assume "map_of kv ''event'' \<noteq> Some (JStr ''agent_message'')
        \<and> map_of kv ''event'' \<noteq> Some (JStr ''message_end'')"
  then show "parse_event rt (JObj kv) self = (Inr None, self)"
    by (auto simp: parse_event_def split: option.splits)
next
  assume "line \<noteq> [] \<and> utf8_decode rt line = Some decoded
        \<and> strip decoded = str_lit ''data: '' @ payload
        \<and> json_loads rt payload =
             Some (JObj [(''event'', JStr ''agent_message''), (''answer'', JStr ''Hi''),
                         (''message_id'', JStr ''m1'')])"
  then show "process_line rt line s =
          s\<lparr>event_ch :=
               event_ch s @ [\<lparr>request_id = JStr ''m1'',
                               choices = [\<lparr>delta = \<lparr>content = JStr ''Hi'',
                                                     role = ''assistant''\<rparr>\<rparr>],
                               usage = None\<rparr>],
            retryable := False\<rparr>"
    by (simp add: process_line_def startswith_def str_lit_def parse_event_def)
qed

text \<open>
  The theorem at the scenario's event and line, at an empty answer, at a missing answer
  and at an unknown discriminator.
\<close>

theorem parse_event_agent_message_witness:
  "parse_event sample_rt
     (JObj [(''event'', JStr ''agent_message''), (''answer'', JStr ''Hi''),
            (''message_id'', JStr ''m1'')]) LLMStream_init
     = (Inr (Some (content_chunk (JStr ''m1'') (JStr ''Hi''))), LLMStream_init)
   \<and> parse_event sample_rt
       (JObj [(''event'', JStr ''agent_message''), (''answer'', JStr [])]) LLMStream_init
     = (Inr None, LLMStream_init)
   \<and> parse_event sample_rt
       (JObj [(''event'', JStr ''agent_message''), (''message_id'', JStr ''m1'')]) LLMStream_init
     = (Inr None, LLMStream_init)
   \<and> parse_event sample_rt (JObj [(''event'', JStr ''ping'')]) LLMStream_init
     = (Inr None, LLMStream_init)
   \<and> process_line sample_rt (sample_line sample_agent_message)
       \<lparr>stream = LLMStream_init, event_ch = [], retryable = True\<rparr>
     = \<lparr>stream = LLMStream_init,
        event_ch = [\<lparr>request_id = JStr ''m1'',
                     choices = [\<lparr>delta = \<lparr>content = JStr ''Hi'', role = ''assistant''\<rparr>\<rparr>],
                     usage = None\<rparr>],
        retryable = False\<rparr>"
proof -
  let ?hi = "[(''event'', JStr ''agent_message''), (''answer'', JStr ''Hi''),
              (''message_id'', JStr ''m1'')] :: (string \<times> unit json) list"
  let ?empty = "[(''event'', JStr ''agent_message''), (''answer'', JStr [])]
                 :: (string \<times> unit json) list"
  let ?absent = "[(''event'', JStr ''agent_message''), (''message_id'', JStr ''m1'')]
                 :: (string \<times> unit json) list"
  let ?ping = "[(''event'', JStr ''ping'')] :: (string \<times> unit json) list"
  let ?init = "\<lparr>stream = LLMStream_init, event_ch = [], retryable = True\<rparr> :: unit run_state"
  have a: "parse_event sample_rt (JObj ?hi) LLMStream_init
      = (Inr (Some (content_chunk (JStr ''m1'') (JStr ''Hi''))), LLMStream_init)"
    using parse_event_agent_message[where kv = ?hi and rt = sample_rt and self = LLMStream_init]
    by (simp add: dict_get_def)
  have b: "parse_event sample_rt (JObj ?empty) LLMStream_init = (Inr None, LLMStream_init)"
    using parse_event_agent_message[where kv = ?empty and rt = sample_rt
        and self = LLMStream_init]
    by simp
  have c: "parse_event sample_rt (JObj ?absent) LLMStream_init = (Inr None, LLMStream_init)"
    using parse_event_agent_message[where kv = ?absent and rt = sample_rt
        and self = LLMStream_init]
    by simp
  have d: "parse_event sample_rt (JObj ?ping) LLMStream_init = (Inr None, LLMStream_init)"
    using parse_event_agent_message[where kv = ?ping and rt = sample_rt
        and self = LLMStream_init]
    by simp
  have l1: "sample_line sample_agent_message \<noteq> []"
    by (simp add: sample_line_def)
  have l2: "utf8_decode sample_rt (sample_line sample_agent_message)
      = Some (str_lit (sample_line sample_agent_message))"
    by code_simp
  have l3: "strip (str_lit (sample_line sample_agent_message))
      = str_lit ''data: '' @ str_lit sample_agent_message"
    by code_simp
  have l4: "json_loads sample_rt (str_lit sample_agent_message) = Some (JObj ?hi)"
    by (simp add: sample_rt_def sample_loads_def)
  have e: "process_line sample_rt (sample_line sample_agent_message) ?init
      = ?init\<lparr>event_ch :=
               event_ch ?init @ [\<lparr>request_id = JStr ''m1'',
                               choices = [\<lparr>delta = \<lparr>content = JStr ''Hi'',
                                                     role = ''assistant''\<rparr>\<rparr>],
                               usage = None\<rparr>],
            retryable := False\<rparr>"
    using parse_event_agent_message[where rt = sample_rt
        and line = "sample_line sample_agent_message"
        and decoded = "str_lit (sample_line sample_agent_message)"
        and payload = "str_lit sample_agent_message" and s = ?init] l1 l2 l3 l4
    by blast
  from a b c d e show ?thesis by simp
qed

text \<open>
  Claim C8. When \<^verbatim>\<open>chat\<close> posts a request, the \<^verbatim>\<open>temperature\<close> entry of the payload
  is the override if one is given, otherwise the temperature stored in the options at
  construction if there is one, and otherwise the payload has no such key.
\<close>

theorem chat_temperature:
  "(\<exists>m\<in>set messages. msg_role m = ''user'') \<longrightarrow>
     (\<exists>req llm'. chat llm messages temp = (Inr req, llm')
        \<and> map_of (json_body req) ''temperature''
            = (case temp of
                 Some t \<Rightarrow> Some (PTemp t)
               | None \<Rightarrow> (case temperature (opts llm) of
                             Some d \<Rightarrow> Some (PTemp d)
                           | None \<Rightarrow> None))
        \<and> (temp = None \<and> temperature (opts llm) = None \<longrightarrow>
             ''temperature'' \<notin> fst ` set (json_body req)))"
proof
  assume "\<exists>m\<in>set messages. msg_role m = ''user''"
  from chat_user[OF this, of llm temp]
  show "\<exists>req llm'. chat llm messages temp = (Inr req, llm')
        \<and> map_of (json_body req) ''temperature''
            = (case temp of
                 Some t \<Rightarrow> Some (PTemp t)
               | None \<Rightarrow> (case temperature (opts llm) of
                             Some d \<Rightarrow> Some (PTemp d)
                           | None \<Rightarrow> None))
        \<and> (temp = None \<and> temperature (opts llm) = None \<longrightarrow>
             ''temperature'' \<notin> fst ` set (json_body req))"
    by (auto simp: Let_def split: option.splits)
qed

text \<open>The theorem with an override, with the stored default only, and with neither.\<close>

theorem chat_temperature_witness:
  "(\<exists>m\<in>set sample_messages. msg_role m = ''user'')
   \<and> (\<exists>req. fst (chat (sample_llm (Some 1)) sample_messages (Some 0)) = Inr req
         \<and> map_of (json_body req) ''temperature'' = Some (PTemp 0))
   \<and> (\<exists>req. fst (chat (sample_llm (Some 1)) sample_messages None) = Inr req
         \<and> map_of (json_body req) ''temperature'' = Some (PTemp 1))
   \<and> (\<exists>req. fst (chat (sample_llm None) sample_messages None) = Inr req
         \<and> ''temperature'' \<notin> fst ` set (json_body req))
   \<and> (LLM_init Map.empty (Some ''app-key'') None (Some 1) None
        = Inr (sample_llm (Some 1)))"
proof -
  have h: "\<exists>m\<in>set sample_messages. msg_role m = ''user''"
    by (simp add: sample_messages_def)
  have t1: "temperature (opts (sample_llm (Some 1))) = Some 1"
   and t0: "temperature (opts (sample_llm None)) = None"
    by (simp_all add: sample_llm_def)
  from chat_temperature[of sample_messages "sample_llm (Some 1)" "Some 0"] h
  have "\<exists>req llm'. chat (sample_llm (Some 1)) sample_messages (Some 0) = (Inr req, llm')
         \<and> map_of (json_body req) ''temperature'' = Some (PTemp 0)"
    by simp
  then have a: "\<exists>req. fst (chat (sample_llm (Some 1)) sample_messages (Some 0)) = Inr req
         \<and> map_of (json_body req) ''temperature'' = Some (PTemp 0)"
    by auto
  from chat_temperature[of sample_messages "sample_llm (Some 1)" None] h t1
  have "\<exists>req llm'. chat (sample_llm (Some 1)) sample_messages None = (Inr req, llm')
         \<and> map_of (json_body req) ''temperature'' = Some (PTemp 1)"
    by simp
  then have b: "\<exists>req. fst (chat (sample_llm (Some 1)) sample_messages None) = Inr req
         \<and> map_of (json_body req) ''temperature'' = Some (PTemp 1)"
    by auto
  from chat_temperature[of sample_messages "sample_llm None" None] h t0
  have "\<exists>req llm'. chat (sample_llm None) sample_messages None = (Inr req, llm')
         \<and> ''temperature'' \<notin> fst ` set (json_body req)"
    by auto
  then have c: "\<exists>req. fst (chat (sample_llm None) sample_messages None) = Inr req
         \<and> ''temperature'' \<notin> fst ` set (json_body req)"
    by auto
  have d: "LLM_init Map.empty (Some ''app-key'') None (Some 1) None
        = Inr (sample_llm (Some 1))"
    by (simp add: LLM_init_def sample_llm_def)
  from h a b c d show ?thesis by blast
qed

text \<open>
  Claim C9 as stated, tried on a \<^verbatim>\<open>message_end\<close> event that has the metadata key and
  the usage key inside it, with \<^verbatim>\<open>null\<close> as usage: \<^verbatim>\<open>usage.get\<close> raises
  \<^verbatim>\<open>AttributeError\<close> before either assignment and both counters keep their values.
\<close>

theorem message_end_null_usage_counterexample:
  "py_contains ''metadata''
     (JObj [(''event'', JStr ''message_end''), (''metadata'', JObj [(''usage'', JNull)])] :: unit json)
     = Inr True
   \<and> py_contains ''usage'' (JObj [(''usage'', JNull)] :: unit json) = Inr True
   \<and> parse_event sample_rt
        (JObj [(''event'', JStr ''message_end''), (''metadata'', JObj [(''usage'', JNull)])])
        \<lparr>self_request_id = JStr [], self_input_tokens = JInt 10, self_output_tokens = JInt 5\<rparr>
      = (Inl AttributeError,
         \<lparr>self_request_id = JStr [], self_input_tokens = JInt 10, self_output_tokens = JInt 5\<rparr>)"
  by (simp add: parse_event_def has_usage_def update_usage_def)

text \<open>
  Claim C9, amended. For a \<^verbatim>\<open>message_end\<close> event whose metadata object holds a usage
  object, both counters are overwritten with the values of the usage object, 0 for an
  absent key, whatever they held before. Both counters are left as they were when the
  event carries no usage object: no metadata key, no usage key inside the metadata
  object, or a metadata or usage value that is not an object.
\<close>

theorem message_end_usage_overwrite:
  "map_of kv ''event'' = Some (JStr ''message_end'') \<Longrightarrow>
   (\<forall>md u. map_of kv ''metadata'' = Some (JObj md) \<and> map_of md ''usage'' = Some (JObj u) \<longrightarrow>
      parse_event rt (JObj kv) self =
        (Inr None, self\<lparr>self_input_tokens := dict_get u ''prompt_tokens'' (JInt 0),
                        self_output_tokens := dict_get u ''completion_tokens'' (JInt 0)\<rparr>)
      \<and> (map_of u ''prompt_tokens'' = None \<longrightarrow>
            self_input_tokens (snd (parse_event rt (JObj kv) self)) = JInt 0)
      \<and> (map_of u ''completion_tokens'' = None \<longrightarrow>
            self_output_tokens (snd (parse_event rt (JObj kv) self)) = JInt 0))
   \<and> ((\<forall>md u. map_of kv ''metadata'' = Some (JObj md) \<longrightarrow> map_of md ''usage'' \<noteq> Some (JObj u)) \<longrightarrow>
        snd (parse_event rt (JObj kv) self) = self)
   \<and> (map_of kv ''metadata'' = None \<longrightarrow> parse_event rt (JObj kv) self = (Inr None, self))
   \<and> (\<forall>md. map_of kv ''metadata'' = Some (JObj md) \<and> map_of md ''usage'' = None \<longrightarrow>
        parse_event rt (JObj kv) self = (Inr None, self))"
proof (intro conjI impI allI)
  fix md u
  assume ev: "map_of kv ''event'' = Some (JStr ''message_end'')"
    and "map_of kv ''metadata'' = Some (JObj md) \<and> map_of md ''usage'' = Some (JObj u)"
  then have eq: "parse_event rt (JObj kv) self =
        (Inr None, self\<lparr>self_input_tokens := dict_get u ''prompt_tokens'' (JInt 0),
                        self_output_tokens := dict_get u ''completion_tokens'' (JInt 0)\<rparr>)"
    by (simp add: parse_event_usage)
  then show "parse_event rt (JObj kv) self =
        (Inr None, self\<lparr>self_input_tokens := dict_get u ''prompt_tokens'' (JInt 0),
                        self_output_tokens := dict_get u ''completion_tokens'' (JInt 0)\<rparr>)" .
  { assume "map_of u ''prompt_tokens'' = None"
    with eq show "self_input_tokens (snd (parse_event rt (JObj kv) self)) = JInt 0"
      by (simp add: dict_get_def) }
  { assume "map_of u ''completion_tokens'' = None"
    with eq show "self_output_tokens (snd (parse_event rt (JObj kv) self)) = JInt 0"
      by (simp add: dict_get_def) }
next
  assume "map_of kv ''event'' = Some (JStr ''message_end'')"
    "\<forall>md u. map_of kv ''metadata'' = Some (JObj md) \<longrightarrow> map_of md ''usage'' \<noteq> Some (JObj u)"
  then show "snd (parse_event rt (JObj kv) self) = self"
    by (simp add: parse_event_no_usage)
next
  assume "map_of kv ''event'' = Some (JStr ''message_end'')" "map_of kv ''metadata'' = None"
  then show "parse_event rt (JObj kv) self = (Inr None, self)"
    by (simp add: parse_event_def has_usage_JObj)
next
  fix md
  assume "map_of kv ''event'' = Some (JStr ''message_end'')"
    "map_of kv ''metadata'' = Some (JObj md) \<and> map_of md ''usage'' = None"
  then show "parse_event rt (JObj kv) self = (Inr None, self)"
    by (simp add: parse_event_def has_usage_JObj)
qed

text \<open>
  The theorem at a usage object without \<^verbatim>\<open>prompt_tokens\<close>, met with counters 10 and 5,
  at an event without metadata and at one whose usage is \<^verbatim>\<open>null\<close>.
\<close>

theorem message_end_usage_overwrite_witness:
  "parse_event sample_rt (message_end_event [(''completion_tokens'', JInt 7)])
     \<lparr>self_request_id = JStr [], self_input_tokens = JInt 10, self_output_tokens = JInt 5\<rparr>
     = (Inr None,
        \<lparr>self_request_id = JStr [], self_input_tokens = JInt 0, self_output_tokens = JInt 7\<rparr>)
   \<and> parse_event sample_rt (JObj [(''event'', JStr ''message_end'')])
       \<lparr>self_request_id = JStr [], self_input_tokens = JInt 10, self_output_tokens = JInt 5\<rparr>
     = (Inr None,
        \<lparr>self_request_id = JStr [], self_input_tokens = JInt 10, self_output_tokens = JInt 5\<rparr>)
   \<and> snd (parse_event sample_rt
            (JObj [(''event'', JStr ''message_end''), (''metadata'', JObj [(''usage'', JNull)])])
       \<lparr>self_request_id = JStr [], self_input_tokens = JInt 10, self_output_tokens = JInt 5\<rparr>)
     = \<lparr>self_request_id = JStr [], self_input_tokens = JInt 10, self_output_tokens = JInt 5\<rparr>"
proof -
  let ?u = "[(''completion_tokens'', JInt 7)] :: (string \<times> unit json) list"
  let ?md = "[(''usage'', JObj ?u)] :: (string \<times> unit json) list"
  let ?kv = "[(''event'', JStr ''message_end''), (''metadata'', JObj ?md)]
             :: (string \<times> unit json) list"
  let ?bare = "[(''event'', JStr ''message_end'')] :: (string \<times> unit json) list"
  let ?null = "[(''event'', JStr ''message_end''), (''metadata'', JObj [(''usage'', JNull)])]
               :: (string \<times> unit json) list"
  let ?st = "\<lparr>self_request_id = JStr [], self_input_tokens = JInt 10,
              self_output_tokens = JInt 5\<rparr> :: unit LLMStream"
  have k1: "map_of ?kv ''event'' = Some (JStr ''message_end'')" by simp
  have k2: "map_of ?kv ''metadata'' = Some (JObj ?md) \<and> map_of ?md ''usage'' = Some (JObj ?u)"
    by simp
  from message_end_usage_overwrite[OF k1, of sample_rt ?st] k2
  have "parse_event sample_rt (JObj ?kv) ?st =
      (Inr None, ?st\<lparr>self_input_tokens := dict_get ?u ''prompt_tokens'' (JInt 0),
                      self_output_tokens := dict_get ?u ''completion_tokens'' (JInt 0)\<rparr>)"
    by blast
  then have a: "parse_event sample_rt (message_end_event ?u) ?st
     = (Inr None,
        \<lparr>self_request_id = JStr [], self_input_tokens = JInt 0, self_output_tokens = JInt 7\<rparr>)"
    by (simp add: dict_get_def message_end_event_def)
  have b1: "map_of ?bare ''event'' = Some (JStr ''message_end'')" by simp
  have b2: "map_of ?bare ''metadata'' = None" by simp
  from message_end_usage_overwrite[OF b1, of sample_rt ?st] b2
  have b: "parse_event sample_rt (JObj ?bare) ?st = (Inr None, ?st)" by blast
  have n1: "map_of ?null ''event'' = Some (JStr ''message_end'')" by simp
  have n2: "\<forall>md u. map_of ?null ''metadata'' = Some (JObj md) \<longrightarrow> map_of md ''usage'' \<noteq> Some (JObj u)"
    by simp
  from message_end_usage_overwrite[OF n1, of sample_rt ?st] n2
  have c: "snd (parse_event sample_rt (JObj ?null) ?st) = ?st" by blast
  from a b c show ?thesis by simp
qed

text \<open>
  Claim C10. \<^verbatim>\<open>_parse_event\<close> changes a usage counter only for a \<^verbatim>\<open>message_end\<close>
  event whose metadata object holds a usage object; for any other discriminator the
  stream object is unchanged; the stored request id is never changed; and a
  \<^verbatim>\<open>message_end\<close> event never yields a chunk.
\<close>

theorem parse_event_frame:
  "((self_input_tokens (snd (parse_event rt event self)) \<noteq> self_input_tokens self
       \<or> self_output_tokens (snd (parse_event rt event self)) \<noteq> self_output_tokens self)
      \<longrightarrow> (\<exists>kv md u. event = JObj kv \<and> map_of kv ''event'' = Some (JStr ''message_end'')
             \<and> map_of kv ''metadata'' = Some (JObj md) \<and> map_of md ''usage'' = Some (JObj u)))
   \<and> (py_get event ''event'' JNull \<noteq> Inr (JStr ''message_end'')
        \<longrightarrow> snd (parse_event rt event self) = self)
   \<and> self_request_id (snd (parse_event rt event self)) = self_request_id self
   \<and> (py_get event ''event'' JNull = Inr (JStr ''message_end'')
        \<longrightarrow> (\<forall>c. fst (parse_event rt event self) \<noteq> Inr (Some c)))"
proof (intro conjI impI allI)
  assume changed: "self_input_tokens (snd (parse_event rt event self)) \<noteq> self_input_tokens self
       \<or> self_output_tokens (snd (parse_event rt event self)) \<noteq> self_output_tokens self"
  have "usage_carried event \<noteq> None"
  proof
    assume "usage_carried event = None"
    then have "snd (parse_event rt event self) = self" by (simp add: parse_event_state)
    with changed show False by simp
  qed
  then obtain pc where "usage_carried event = Some pc" by blast
  then show "\<exists>kv md u. event = JObj kv \<and> map_of kv ''event'' = Some (JStr ''message_end'')
             \<and> map_of kv ''metadata'' = Some (JObj md) \<and> map_of md ''usage'' = Some (JObj u)"
    unfolding usage_carried_Some by blast
next
  assume "py_get event ''event'' JNull \<noteq> Inr (JStr ''message_end'')"
  then show "snd (parse_event rt event self) = self" by (rule parse_event_other)
next
  show "self_request_id (snd (parse_event rt event self)) = self_request_id self"
    by (rule parse_event_request_id)
next
  fix c
  assume me: "py_get event ''event'' JNull = Inr (JStr ''message_end'')"
  then obtain kv where kv: "event = JObj kv" by (cases event) auto
  with me have "map_of kv ''event'' = Some (JStr ''message_end'')"
    by (simp only: event_type_message_end)
  with kv show "fst (parse_event rt event self) \<noteq> Inr (Some c)"
    by (simp add: parse_event_message_end_no_chunk)
qed

text \<open>The theorem at a usage event, which changes a counter, and at an answer event.\<close>

theorem parse_event_frame_witness:
  "self_input_tokens (snd (parse_event sample_rt
       (message_end_event [(''prompt_tokens'', JInt 10), (''completion_tokens'', JInt 5)])
       LLMStream_init)) \<noteq> self_input_tokens (LLMStream_init :: unit LLMStream)
   \<and> (\<exists>kv md u.
         (message_end_event [(''prompt_tokens'', JInt 10), (''completion_tokens'', JInt 5)]
            :: unit json) = JObj kv
         \<and> map_of kv ''event'' = Some (JStr ''message_end'')
         \<and> map_of kv ''metadata'' = Some (JObj md) \<and> map_of md ''usage'' = Some (JObj u))
   \<and> (\<forall>c. fst (parse_event sample_rt
         (message_end_event [(''prompt_tokens'', JInt 10), (''completion_tokens'', JInt 5)])
         LLMStream_init) \<noteq> Inr (Some c))
   \<and> snd (parse_event sample_rt
        (JObj [(''event'', JStr ''agent_message''), (''answer'', JStr ''Hi'')])
        \<lparr>self_request_id = JStr [], self_input_tokens = JInt 10, self_output_tokens = JInt 5\<rparr>)
      = \<lparr>self_request_id = JStr [], self_input_tokens = JInt 10, self_output_tokens = JInt 5\<rparr>"
proof -
  let ?e = "message_end_event [(''prompt_tokens'', JInt 10), (''completion_tokens'', JInt 5)]
            :: unit json"
  let ?a = "JObj [(''event'', JStr ''agent_message''), (''answer'', JStr ''Hi'')] :: unit json"
  let ?st = "\<lparr>self_request_id = JStr [], self_input_tokens = JInt 10,
              self_output_tokens = JInt 5\<rparr> :: unit LLMStream"
  have e: "py_get ?e ''event'' JNull = Inr (JStr ''message_end'')"
    by (simp add: message_end_event_def)
  have a: "py_get ?a ''event'' JNull \<noteq> Inr (JStr ''message_end'')"
    by simp
  have ch: "self_input_tokens (snd (parse_event sample_rt ?e LLMStream_init))
              \<noteq> self_input_tokens (LLMStream_init :: unit LLMStream)"
    by (simp add: parse_event_def has_usage_def update_usage_def message_end_event_def
          LLMStream_init_def)
  from parse_event_frame[of sample_rt ?e LLMStream_init] ch
  have 0: "\<exists>kv md u. ?e = JObj kv \<and> map_of kv ''event'' = Some (JStr ''message_end'')
         \<and> map_of kv ''metadata'' = Some (JObj md) \<and> map_of md ''usage'' = Some (JObj u)"
    by blast
  from parse_event_frame[of sample_rt ?e LLMStream_init] e
  have 1: "\<forall>c. fst (parse_event sample_rt ?e LLMStream_init) \<noteq> Inr (Some c)" by blast
  from parse_event_frame[of sample_rt ?a ?st] a
  have 2: "snd (parse_event sample_rt ?a ?st) = ?st" by blast
  from ch 0 1 2 show ?thesis by blast
qed

end
